theory Spec2Isabelle
  imports Main "HOL-Library.Word"
begin

section \<open>The report renderer of scripts/generate-pdf.py\<close>

text \<open>
  The script reads a JSON text from standard input, builds a list of layout blocks
  (the \<open>story\<close>) from it, hands the story to ReportLab's \<open>SimpleDocTemplate.build\<close>
  and writes the resulting bytes to standard output. Everything the script itself
  decides happens while the story is built, so the story is the object the theorems
  below speak about. What the script imports (the JSON decoder, the formatting of
  non-string values inside f-strings, the layout engine and the text of an exception)
  is taken as a parameter, the record \<open>runtime\<close>.
\<close>

subsection \<open>Python values\<close>

text \<open>
  The value \<open>json.loads\<close> returns. A dict is kept as the list of its key/value pairs
  in insertion order, read with \<open>map_of\<close> (the first pair of a key gives its value); a
  float is carried as its IEEE-754 binary64 bit pattern, since the script only tests it
  for truth. Text is a \<open>string\<close>, one \<open>char\<close> per character.
\<close>

datatype json =
    JNull
  | JBool bool
  | JInt int
  | JFloat "64 word"
  | JStr string
  | JArr "json list"
  | JObj "(string \<times> json) list"

datatype py_type = NoneType | TBool | TInt | TFloat | TStr | TList | TDict

fun type_of :: "json \<Rightarrow> py_type" where
  "type_of JNull = NoneType"
| "type_of (JBool b) = TBool"
| "type_of (JInt n) = TInt"
| "type_of (JFloat w) = TFloat"
| "type_of (JStr s) = TStr"
| "type_of (JArr xs) = TList"
| "type_of (JObj kvs) = TDict"

text \<open>
  The exceptions that can reach the handler of \<open>main\<close>. \<open>AttributeError t a\<close> is
  the access of attribute \<open>a\<close> on a value of type \<open>t\<close> that has none;
  \<open>TypeError t op\<close> is an operation a value of type \<open>t\<close> does not support.
  The last two are raised by the imported libraries.
\<close>

datatype py_error =
    AttributeError py_type string
  | TypeError py_type string
  | JSONDecodeError string
  | LayoutError string

fun and_then :: "py_error + 'a \<Rightarrow> ('a \<Rightarrow> py_error + 'b) \<Rightarrow> py_error + 'b" where
  "and_then (Inl e) f = Inl e"
| "and_then (Inr x) f = f x"

text \<open>Truth value of a Python object, as \<open>if x:\<close> tests it.\<close>

fun truthy :: "json \<Rightarrow> bool" where
  "truthy JNull = False"
| "truthy (JBool b) = b"
| "truthy (JInt n) = (n \<noteq> 0)"
| "truthy (JFloat w) = (w \<noteq> 0 \<and> w \<noteq> 0x8000000000000000)"
| "truthy (JStr s) = (s \<noteq> [])"
| "truthy (JArr xs) = (xs \<noteq> [])"
| "truthy (JObj kvs) = (kvs \<noteq> [])"

text \<open>\<open>obj.get(key, default)\<close>: only a dict has the method.\<close>

fun dict_get :: "json \<Rightarrow> string \<Rightarrow> json \<Rightarrow> py_error + json" where
  "dict_get (JObj kvs) key dflt = Inr (case map_of kvs key of None \<Rightarrow> dflt | Some v \<Rightarrow> v)"
| "dict_get v key dflt = Inl (AttributeError (type_of v) ''get'')"

text \<open>
  \<open>str.upper\<close>, character by character, on the ASCII letters: a letter between
  \<open>a\<close> (97) and \<open>z\<close> (122) moves down by 32; any other character is left as it is.
\<close>

definition upper_char :: "char \<Rightarrow> char" where
  "upper_char c =
     (if 97 \<le> (of_char c :: nat) \<and> (of_char c :: nat) \<le> 122
      then char_of (of_char c - 32 :: nat)
      else c)"

fun upper :: "json \<Rightarrow> py_error + string" where
  "upper (JStr s) = Inr (map upper_char s)"
| "upper v = Inl (AttributeError (type_of v) ''upper'')"

text \<open>
  \<open>x[:8]\<close>: a string and a list can be sliced. A dict raises as well (TypeError before
  Python 3.12, KeyError from then on); a number, a boolean and None are not
  subscriptable.
\<close>

fun slice_to :: "nat \<Rightarrow> json \<Rightarrow> py_error + json" where
  "slice_to n (JStr s) = Inr (JStr (take n s))"
| "slice_to n (JArr xs) = Inr (JArr (take n xs))"
| "slice_to n v = Inl (TypeError (type_of v) ''[:]'')"

text \<open>\<open>x + "..."\<close> with a string literal on the right: only a string can be extended.\<close>

fun add_str :: "json \<Rightarrow> string \<Rightarrow> py_error + json" where
  "add_str (JStr s) t = Inr (JStr (s @ t))"
| "add_str v t = Inl (TypeError (type_of v) ''+'')"

text \<open>
  \<open>for item in x\<close>: a list gives its elements, a string its characters, a dict its
  keys; nothing else can be iterated.
\<close>

fun iterate :: "json \<Rightarrow> py_error + json list" where
  "iterate (JArr xs) = Inr xs"
| "iterate (JStr s) = Inr (map (\<lambda>c. JStr [c]) s)"
| "iterate (JObj kvs) = Inr (map (\<lambda>kv. JStr (fst kv)) kvs)"
| "iterate v = Inl (TypeError (type_of v) ''iter'')"

subsection \<open>Colours, styles and layout blocks\<close>

datatype color =
    PRIMARY_COLOR | SUCCESS_COLOR | WARNING_COLOR | DANGER_COLOR
  | INFO_COLOR | NEUTRAL_COLOR | LIGHT_BG

fun hex :: "color \<Rightarrow> string" where
  "hex PRIMARY_COLOR = ''#5b0202''"
| "hex SUCCESS_COLOR = ''#166534''"
| "hex WARNING_COLOR = ''#92400e''"
| "hex DANGER_COLOR = ''#991b1b''"
| "hex INFO_COLOR = ''#1e40af''"
| "hex NEUTRAL_COLOR = ''#374151''"
| "hex LIGHT_BG = ''#f9fafb''"

text \<open>The named styles \<open>create_styles\<close> adds to the sample style sheet.\<close>

datatype style_name =
    Logo | Subtitle | SectionTitle | SubSectionTitle | CustomBodyText | ListItem
  | SuccessText | DangerText | WarningText | InfoText | Disclaimer | Footer

text \<open>
  A paragraph style is either looked up in the sheet (\<open>styles['Name']\<close>) or made on
  the spot: \<open>ParagraphStyle(name, parent=styles[..], textColor=.., fontSize=..)\<close>.
\<close>

datatype pstyle =
    Styles style_name
  | ParagraphStyle string style_name color "nat option"

text \<open>The \<open>textColor\<close> each named style is created with.\<close>

fun create_styles :: "style_name \<Rightarrow> color" where
  "create_styles Logo = PRIMARY_COLOR"
| "create_styles Subtitle = NEUTRAL_COLOR"
| "create_styles SectionTitle = PRIMARY_COLOR"
| "create_styles SubSectionTitle = NEUTRAL_COLOR"
| "create_styles CustomBodyText = NEUTRAL_COLOR"
| "create_styles ListItem = NEUTRAL_COLOR"
| "create_styles SuccessText = SUCCESS_COLOR"
| "create_styles DangerText = DANGER_COLOR"
| "create_styles WarningText = WARNING_COLOR"
| "create_styles InfoText = INFO_COLOR"
| "create_styles Disclaimer = WARNING_COLOR"
| "create_styles Footer = NEUTRAL_COLOR"

fun text_color :: "pstyle \<Rightarrow> color" where
  "text_color (Styles n) = create_styles n"
| "text_color (ParagraphStyle name parent c fs) = c"

text \<open>
  A table style command with the cell range it covers, \<open>(column, row)\<close> to
  \<open>(column, row)\<close>; a negative index counts from the end.
\<close>

datatype table_cmd =
    FONT "int \<times> int" "int \<times> int" string
  | FONTSIZE "int \<times> int" "int \<times> int" nat
  | TEXTCOLOR "int \<times> int" "int \<times> int" color
  | VALIGN "int \<times> int" "int \<times> int" string
  | BOTTOMPADDING "int \<times> int" "int \<times> int" nat

text \<open>
  The blocks the script appends to the story. The text of a paragraph and the content
  of a table cell are whatever value the script passes.
\<close>

datatype flowable =
    Paragraph json pstyle
  | Spacer nat nat
  | HRFlowable string nat color
  | Table "json list list" "nat list" "table_cmd list"
  | PageBreak

subsection \<open>What the script imports\<close>

text \<open>
  \<^item> \<open>json_loads\<close>: \<open>json.loads(sys.stdin.read())\<close>, the decoded value or the exception;
  \<^item> \<open>py_str\<close>: the text an f-string puts for a value that is not a string;
  \<^item> \<open>doc_build\<close>: the layout engine, from the story to the bytes of the document or
    the exception it raises (the constructors of the blocks included; the document
    template and the style sheet are made from constants before the story is built);
  \<^item> \<open>exc_str\<close>: \<open>str(e)\<close>, the message of an exception.
\<close>

record runtime =
  json_loads :: "string \<Rightarrow> py_error + json"
  py_str :: "json \<Rightarrow> string"
  doc_build :: "flowable list \<Rightarrow> py_error + 8 word list"
  exc_str :: "py_error \<Rightarrow> string"

text \<open>\<open>{v}\<close> inside an f-string.\<close>

fun fmt :: "runtime \<Rightarrow> json \<Rightarrow> string" where
  "fmt rt (JStr s) = s"
| "fmt rt v = py_str rt v"

text \<open>A \<open>for\<close> loop whose body appends blocks: the blocks of all rounds, in order.\<close>

fun for_each :: "('a \<Rightarrow> py_error + flowable list) \<Rightarrow> 'a list \<Rightarrow> py_error + flowable list" where
  "for_each body [] = Inr []"
| "for_each body (x # xs) =
     and_then (body x) (\<lambda>blocks. and_then (for_each body xs) (\<lambda>rest. Inr (blocks @ rest)))"

subsection \<open>\<open>get_classification_color\<close>\<close>

definition get_classification_color :: "json \<Rightarrow> color" where
  "get_classification_color classification =
     (if classification = JStr ''normal'' then SUCCESS_COLOR
      else if classification = JStr ''abnormal'' then WARNING_COLOR
      else if classification = JStr ''critical'' then DANGER_COLOR
      else NEUTRAL_COLOR)"

subsection \<open>\<open>generate_pdf\<close>, page 1\<close>

text \<open>The header of page 1.\<close>

definition page1_header :: "flowable list" where
  "page1_header =
     [Paragraph (JStr ''MUAINA'') (Styles Logo),
      Paragraph (JStr ''AI-Powered Pathology Report Analysis'') (Styles Subtitle),
      HRFlowable ''100%'' 2 PRIMARY_COLOR,
      Spacer 1 12]"

text \<open>
  The rows of the information table, in the order the script evaluates them: the
  identifier is sliced and extended, the classification is upper-cased.
\<close>

definition info_data :: "json \<Rightarrow> py_error + json list list" where
  "info_data data =
     and_then (dict_get data ''id'' (JStr ''N/A'')) (\<lambda>ident.
     and_then (slice_to 8 ident) (\<lambda>sliced.
     and_then (add_str sliced ''...'') (\<lambda>report_id.
     and_then (dict_get data ''fileName'' (JStr ''Unknown'')) (\<lambda>file_name.
     and_then (dict_get data ''uploadedAt'' (JStr ''N/A'')) (\<lambda>uploaded.
     and_then (dict_get data ''organizationName'' (JStr ''Unknown'')) (\<lambda>organization.
     and_then (dict_get data ''classification'' (JStr ''pending'')) (\<lambda>classification.
     and_then (upper classification) (\<lambda>classification_upper.
     and_then (dict_get data ''reviewStatus'' (JStr ''pending'')) (\<lambda>review_status.
     Inr [[JStr ''Report ID:'', report_id],
          [JStr ''File Name:'', file_name],
          [JStr ''Uploaded:'', uploaded],
          [JStr ''Organization:'', organization],
          [JStr ''Classification:'', JStr classification_upper],
          [JStr ''Review Status:'', review_status]])))))))))"

definition info_style :: "color \<Rightarrow> table_cmd list" where
  "info_style classification_color =
     [FONT (0, 0) (0, -1) ''Helvetica-Bold'',
      FONT (1, 0) (1, -1) ''Helvetica'',
      FONTSIZE (0, 0) (-1, -1) 10,
      TEXTCOLOR (0, 0) (0, -1) NEUTRAL_COLOR,
      TEXTCOLOR (1, 0) (1, -1) NEUTRAL_COLOR,
      TEXTCOLOR (1, 4) (1, 4) classification_color,
      VALIGN (0, 0) (-1, -1) ''TOP'',
      BOTTOMPADDING (0, 0) (-1, -1) 6]"

definition report_information :: "json \<Rightarrow> py_error + flowable list" where
  "report_information data =
     and_then (info_data data) (\<lambda>rows.
     and_then (dict_get data ''classification'' (JStr [])) (\<lambda>classification.
     Inr [Paragraph (JStr ''Report Information'') (Styles SectionTitle),
          Table rows [120, 350] (info_style (get_classification_color classification)),
          Spacer 1 16]))"

definition analysis_summary :: "json \<Rightarrow> py_error + flowable list" where
  "analysis_summary data =
     and_then (dict_get data ''summary'' (JStr ''No summary available'')) (\<lambda>summary.
     and_then (dict_get data ''details'' (JStr ''No details available'')) (\<lambda>details.
     Inr [Paragraph (JStr ''AI Analysis Summary'') (Styles SectionTitle),
          Paragraph summary (Styles CustomBodyText),
          Spacer 1 8,
          Paragraph details (Styles CustomBodyText),
          Spacer 1 16]))"

text \<open>The body of the loop over the findings.\<close>

definition finding_block :: "runtime \<Rightarrow> json \<Rightarrow> py_error + flowable list" where
  "finding_block rt finding =
     and_then (dict_get finding ''severity'' (JStr ''info'')) (\<lambda>sev.
     and_then (upper sev) (\<lambda>severity.
     and_then (dict_get finding ''category'' (JStr [])) (\<lambda>category.
     and_then (dict_get finding ''description'' (JStr [])) (\<lambda>description.
     let severity_color =
           (if severity = ''CRITICAL'' then DANGER_COLOR
            else if severity = ''WARNING'' then WARNING_COLOR
            else NEUTRAL_COLOR)
     in Inr [Paragraph (JStr (''<b>['' @ severity @ '']</b> '' @ fmt rt category))
               (ParagraphStyle ''FindingTitle'' CustomBodyText severity_color None),
             Paragraph description (Styles ListItem)]))))"

definition key_findings :: "runtime \<Rightarrow> json \<Rightarrow> py_error + flowable list" where
  "key_findings rt data =
     and_then (dict_get data ''findings'' (JArr [])) (\<lambda>findings.
     if truthy findings then
       and_then (iterate findings) (\<lambda>items.
       and_then (for_each (finding_block rt) items) (\<lambda>blocks.
       Inr ([Paragraph (JStr ''Key Findings'') (Styles SectionTitle)] @ blocks @ [Spacer 1 16])))
     else Inr [])"

definition page1_disclaimer :: "flowable list" where
  "page1_disclaimer =
     [Spacer 1 20,
      Paragraph (JStr (''<b>DISCLAIMER:</b> This AI-generated analysis is for informational purposes only and should not ''
          @ ''replace professional medical advice. Always consult with qualified healthcare providers ''
          @ ''for diagnosis and treatment decisions.''))
        (Styles Disclaimer)]"

definition page1 :: "runtime \<Rightarrow> json \<Rightarrow> py_error + flowable list" where
  "page1 rt data =
     and_then (report_information data) (\<lambda>info.
     and_then (analysis_summary data) (\<lambda>summary.
     and_then (key_findings rt data) (\<lambda>findings.
     Inr (page1_header @ info @ summary @ findings @ page1_disclaimer))))"

subsection \<open>\<open>generate_pdf\<close>, page 2\<close>

text \<open>
  The four glyphs that prefix the list items lie outside ASCII; each is written as the
  bytes of its UTF-8 form (U+26A0, U+2022, U+2713, U+2717).
\<close>

definition warning_sign :: string where
  "warning_sign = [CHR 0xE2, CHR 0x9A, CHR 0xA0]"

definition bullet :: string where
  "bullet = [CHR 0xE2, CHR 0x80, CHR 0xA2]"

definition check_mark :: string where
  "check_mark = [CHR 0xE2, CHR 0x9C, CHR 0x93]"

definition ballot_x :: string where
  "ballot_x = [CHR 0xE2, CHR 0x9C, CHR 0x97]"

definition page2_header :: "flowable list" where
  "page2_header =
     [Paragraph (JStr ''MUAINA'') (Styles Logo),
      Paragraph (JStr ''Patient-Friendly Interpretation'') (Styles SectionTitle),
      HRFlowable ''100%'' 2 PRIMARY_COLOR,
      Spacer 1 12]"

definition medical_condition :: "runtime \<Rightarrow> json \<Rightarrow> py_error + flowable list" where
  "medical_condition rt interpretation =
     and_then (dict_get interpretation ''medicalCondition'' (JObj [])) (\<lambda>condition.
     if truthy condition then
       and_then (dict_get condition ''name'' (JStr ''Unknown'')) (\<lambda>name.
       and_then (dict_get condition ''description'' (JStr [])) (\<lambda>description.
       and_then (dict_get condition ''severity'' (JStr ''moderate'')) (\<lambda>sev.
       and_then (upper sev) (\<lambda>severity.
       and_then (dict_get condition ''icdCode'' (JStr [])) (\<lambda>icd.
       let meta_text = ''Severity: '' @ severity
             @ (if truthy icd then '' | ICD Code: '' @ fmt rt icd else [])
       in Inr [Paragraph (JStr ''Medical Condition'') (Styles SubSectionTitle),
               Paragraph (JStr (''<b>'' @ fmt rt name @ ''</b>''))
                 (ParagraphStyle ''ConditionName'' CustomBodyText DANGER_COLOR (Some 12)),
               Paragraph description (Styles CustomBodyText),
               Paragraph (JStr meta_text) (Styles ListItem),
               Spacer 1 12])))))
     else Inr [])"

definition what_this_means :: "json \<Rightarrow> py_error + flowable list" where
  "what_this_means interpretation =
     and_then (dict_get interpretation ''summary'' (JStr [])) (\<lambda>summary.
     Inr [Paragraph (JStr ''What This Means'') (Styles SubSectionTitle),
          Paragraph summary (Styles CustomBodyText),
          Spacer 1 12])"

text \<open>
  One paragraph per item, the item behind a glyph: the loop body of the precautions,
  the diet recommendations, the do's, the don'ts and the lifestyle changes.
\<close>

definition item_line :: "runtime \<Rightarrow> string \<Rightarrow> style_name \<Rightarrow> json \<Rightarrow> py_error + flowable list" where
  "item_line rt glyph style item =
     Inr [Paragraph (JStr (glyph @ '' '' @ fmt rt item)) (Styles style)]"

text \<open>
  A list under its own heading, left out when the list is empty: precautions, diet
  recommendations and lifestyle changes are written this way.
\<close>

definition item_section ::
  "runtime \<Rightarrow> string \<Rightarrow> json \<Rightarrow> string \<Rightarrow> string \<Rightarrow> style_name \<Rightarrow> json \<Rightarrow> py_error + flowable list" where
  "item_section rt key dflt title glyph style interpretation =
     and_then (dict_get interpretation key dflt) (\<lambda>entries.
     if truthy entries then
       and_then (iterate entries) (\<lambda>items.
       and_then (for_each (item_line rt glyph style) items) (\<lambda>lines.
       Inr ([Paragraph (JStr title) (Styles SubSectionTitle)] @ lines @ [Spacer 1 12])))
     else Inr [])"

definition consultation_info :: "runtime \<Rightarrow> json \<Rightarrow> py_error + flowable list" where
  "consultation_info rt interpretation =
     and_then (dict_get interpretation ''consultation'' (JObj [])) (\<lambda>consultation.
     if truthy consultation then
       and_then (dict_get consultation ''followUpTiming'' (JStr ''N/A'')) (\<lambda>follow_up.
       and_then (dict_get consultation ''bookingInfo'' (JStr ''N/A'')) (\<lambda>booking.
       and_then (dict_get consultation ''urgency'' (JStr ''routine'')) (\<lambda>urg.
       and_then (upper urg) (\<lambda>urgency.
       let urgency_color =
             (if urgency = ''URGENT'' then DANGER_COLOR
              else if urgency = ''SOON'' then WARNING_COLOR
              else INFO_COLOR)
       in Inr [Paragraph (JStr ''Consultation Information'') (Styles SubSectionTitle),
               Paragraph (JStr (''<b>Follow-up:</b> '' @ fmt rt follow_up)) (Styles CustomBodyText),
               Paragraph (JStr (''<b>How to Book:</b> '' @ fmt rt booking)) (Styles CustomBodyText),
               Paragraph (JStr (''<b>Priority:</b> '' @ urgency))
                 (ParagraphStyle ''Urgency'' CustomBodyText urgency_color None),
               Spacer 1 12]))))
     else Inr [])"

text \<open>One of the two lists of the do's and don'ts, under its bold caption.\<close>

definition captioned_items ::
  "runtime \<Rightarrow> string \<Rightarrow> string \<Rightarrow> style_name \<Rightarrow> json \<Rightarrow> py_error + flowable list" where
  "captioned_items rt caption glyph style entries =
     (if truthy entries then
        and_then (iterate entries) (\<lambda>items.
        and_then (for_each (item_line rt glyph style) items) (\<lambda>lines.
        Inr (Paragraph (JStr caption) (Styles CustomBodyText) # lines)))
      else Inr [])"

definition dos_and_donts :: "runtime \<Rightarrow> json \<Rightarrow> py_error + flowable list" where
  "dos_and_donts rt interpretation =
     and_then (dict_get interpretation ''dos'' (JArr [])) (\<lambda>dos.
     and_then (dict_get interpretation ''donts'' (JArr [])) (\<lambda>donts.
     if truthy dos \<or> truthy donts then
       and_then (captioned_items rt ''<b>Things to Do:</b>'' check_mark SuccessText dos) (\<lambda>do_lines.
       and_then (captioned_items rt ''<b>Things to Avoid:</b>'' ballot_x DangerText donts) (\<lambda>dont_lines.
       Inr ([Paragraph (JStr ''Do's and Don'ts'') (Styles SubSectionTitle)]
            @ do_lines @ dont_lines @ [Spacer 1 12])))
     else Inr []))"

definition page2_disclaimer :: "flowable list" where
  "page2_disclaimer =
     [Spacer 1 20,
      Paragraph (JStr (''This interpretation is designed to help you understand your results in simple terms. ''
          @ ''It is NOT a substitute for professional medical advice. Please discuss these findings ''
          @ ''with your healthcare provider.''))
        (Styles Disclaimer)]"

definition page2 :: "runtime \<Rightarrow> json \<Rightarrow> py_error + flowable list" where
  "page2 rt interpretation =
     and_then (medical_condition rt interpretation) (\<lambda>condition.
     and_then (what_this_means interpretation) (\<lambda>summary.
     and_then (item_section rt ''precautions'' (JArr []) ''Important Precautions''
                 warning_sign WarningText interpretation) (\<lambda>precautions.
     and_then (item_section rt ''diet'' (JArr []) ''Diet Recommendations''
                 bullet InfoText interpretation) (\<lambda>diet.
     and_then (consultation_info rt interpretation) (\<lambda>consultation.
     and_then (dos_and_donts rt interpretation) (\<lambda>dos_donts.
     and_then (item_section rt ''lifestyleChanges'' (JArr []) ''Lifestyle Changes''
                 bullet ListItem interpretation) (\<lambda>lifestyle.
     Inr ([PageBreak] @ page2_header @ condition @ summary @ precautions @ diet
          @ consultation @ dos_donts @ lifestyle @ page2_disclaimer))))))))"

subsection \<open>\<open>generate_pdf\<close>, page 3\<close>

definition page3_header :: "flowable list" where
  "page3_header =
     [Paragraph (JStr ''MUAINA'') (Styles Logo),
      Paragraph (JStr ''Recommended Healthcare Providers'') (Styles SectionTitle),
      HRFlowable ''100%'' 2 PRIMARY_COLOR,
      Spacer 1 12]"

text \<open>The body of the loop over the suggested doctors.\<close>

definition doctor_block :: "runtime \<Rightarrow> json \<Rightarrow> py_error + flowable list" where
  "doctor_block rt doctor =
     and_then (dict_get doctor ''name'' (JStr ''N/A'')) (\<lambda>name.
     and_then (dict_get doctor ''specialty'' (JStr [])) (\<lambda>specialty.
     and_then (dict_get doctor ''qualification'' (JStr [])) (\<lambda>qualification.
     and_then (dict_get doctor ''location'' (JStr ''N/A'')) (\<lambda>location.
     and_then (dict_get doctor ''availability'' (JStr ''N/A'')) (\<lambda>availability.
     and_then (dict_get doctor ''contact'' (JStr ''N/A'')) (\<lambda>contact.
     and_then (dict_get doctor ''consultationFee'' JNull) (\<lambda>fee.
     Inr ([Paragraph (JStr (''<b>'' @ fmt rt name @ ''</b>''))
             (ParagraphStyle ''DocName'' CustomBodyText SUCCESS_COLOR (Some 11)),
           Paragraph (JStr (fmt rt specialty @ '' - '' @ fmt rt qualification)) (Styles CustomBodyText),
           Paragraph (JStr (''Location: '' @ fmt rt location)) (Styles ListItem),
           Paragraph (JStr (''Availability: '' @ fmt rt availability)) (Styles ListItem),
           Paragraph (JStr (''Contact: '' @ fmt rt contact)) (Styles ListItem)]
          @ (if truthy fee then [Paragraph (JStr (''Fee: '' @ fmt rt fee)) (Styles ListItem)] else [])
          @ [Spacer 1 10]))))))))"

text \<open>The body of the loop over the doctor recommendations.\<close>

definition recommendation_block :: "runtime \<Rightarrow> json \<Rightarrow> py_error + flowable list" where
  "recommendation_block rt rec =
     and_then (dict_get rec ''urgency'' (JStr ''routine'')) (\<lambda>urg.
     and_then (upper urg) (\<lambda>urgency.
     and_then (dict_get rec ''specialty'' (JStr ''N/A'')) (\<lambda>specialty.
     and_then (dict_get rec ''reason'' (JStr [])) (\<lambda>reason.
     Inr [Paragraph (JStr (''<b>'' @ fmt rt specialty @ ''</b> ('' @ urgency @ '')''))
            (Styles CustomBodyText),
          Paragraph reason (Styles ListItem),
          Spacer 1 6]))))"

text \<open>A list of page 3 under its heading, left out when the list is empty.\<close>

definition provider_section ::
  "string \<Rightarrow> (json \<Rightarrow> py_error + flowable list) \<Rightarrow> json \<Rightarrow> py_error + flowable list" where
  "provider_section title body entries =
     (if truthy entries then
        and_then (iterate entries) (\<lambda>items.
        and_then (for_each body items) (\<lambda>blocks.
        Inr (Paragraph (JStr title) (Styles SubSectionTitle) # blocks)))
      else Inr [])"

definition page3_disclaimer :: "flowable list" where
  "page3_disclaimer =
     [Spacer 1 20,
      Paragraph (JStr (''The suggested doctors are recommendations based on your medical needs. ''
          @ ''Availability and fees may vary. Please contact the healthcare provider directly ''
          @ ''to confirm appointment details.''))
        (Styles Disclaimer)]"

definition page3 :: "runtime \<Rightarrow> json \<Rightarrow> py_error + flowable list" where
  "page3 rt interpretation =
     and_then (dict_get interpretation ''suggestedDoctors'' (JArr [])) (\<lambda>doctors.
     and_then (dict_get interpretation ''doctorRecommendations'' (JArr [])) (\<lambda>doctor_recs.
     if truthy doctors \<or> truthy doctor_recs then
       and_then (provider_section ''Suggested Doctors'' (doctor_block rt) doctors) (\<lambda>doctor_blocks.
       and_then (provider_section ''Specialist Consultations Recommended''
                   (recommendation_block rt) doctor_recs) (\<lambda>rec_blocks.
       Inr ([PageBreak] @ page3_header @ doctor_blocks @ rec_blocks @ page3_disclaimer)))
     else Inr []))"

subsection \<open>\<open>generate_pdf\<close> and \<open>main\<close>\<close>

text \<open>
  The story: page 1, then pages 2 and 3 when \<open>data.get('muainaInterpretation')\<close> is
  true. Page 3 is written inside the branch of page 2.
\<close>

definition build_story :: "runtime \<Rightarrow> json \<Rightarrow> py_error + flowable list" where
  "build_story rt data =
     and_then (page1 rt data) (\<lambda>first_page.
     and_then (dict_get data ''muainaInterpretation'' JNull) (\<lambda>interpretation.
     if truthy interpretation then
       and_then (page2 rt interpretation) (\<lambda>second_page.
       and_then (page3 rt interpretation) (\<lambda>third_page.
       Inr (first_page @ second_page @ third_page)))
     else Inr first_page))"




subsection \<open>Reading a record and a story\<close>

text \<open>The value of a key of an object, when the object has the key.\<close>

fun lookup :: "json \<Rightarrow> string \<Rightarrow> json option" where
  "lookup (JObj kvs) key = map_of kvs key"
| "lookup v key = None"

definition field_or :: "json \<Rightarrow> string \<Rightarrow> json \<Rightarrow> json" where
  "field_or v key dflt = (case lookup v key of None \<Rightarrow> dflt | Some x \<Rightarrow> x)"



text \<open>
  The headings in the \<open>SectionTitle\<close> style, in story order. The script gives this
  style to fixed texts only, so they tell which parts of the template a story has:
  page 2 opens with ``Patient-Friendly Interpretation'', page 3 with ``Recommended
  Healthcare Providers'', and the findings stand under ``Key Findings''.
\<close>

fun section_title :: "flowable \<Rightarrow> json list" where
  "section_title (Paragraph t (Styles SectionTitle)) = [t]"
| "section_title b = []"

definition section_titles :: "flowable list \<Rightarrow> json list" where
  "section_titles story = concat (map section_title story)"

definition has_page2 :: "flowable list \<Rightarrow> bool" where
  "has_page2 story \<longleftrightarrow> JStr ''Patient-Friendly Interpretation'' \<in> set (section_titles story)"

definition has_page3 :: "flowable list \<Rightarrow> bool" where
  "has_page3 story \<longleftrightarrow> JStr ''Recommended Healthcare Providers'' \<in> set (section_titles story)"

definition has_key_findings :: "flowable list \<Rightarrow> bool" where
  "has_key_findings story \<longleftrightarrow> JStr ''Key Findings'' \<in> set (section_titles story)"

text \<open>The title line of a finding: the one paragraph in a style named \<open>FindingTitle\<close>.\<close>

fun is_finding_title :: "flowable \<Rightarrow> bool" where
  "is_finding_title (Paragraph t (ParagraphStyle name parent c fs)) = (name = ''FindingTitle'')"
| "is_finding_title b = False"

text \<open>The fee line of a doctor: a list item whose text starts with \<open>Fee: \<close>.\<close>

fun is_fee_line :: "flowable \<Rightarrow> bool" where
  "is_fee_line (Paragraph (JStr s) (Styles ListItem)) = (take 5 s = ''Fee: '')"
| "is_fee_line b = False"

text \<open>The rows and the style commands of the first table of a story.\<close>

fun first_table :: "flowable list \<Rightarrow> (json list list \<times> table_cmd list) option" where
  "first_table [] = None"
| "first_table (Table rows widths cmds # bs) = Some (rows, cmds)"
| "first_table (b # bs) = first_table bs"

definition cell_at :: "json list list \<Rightarrow> nat \<times> nat \<Rightarrow> json option" where
  "cell_at rows pos =
     (case pos of (col, row) \<Rightarrow>
        if row < length rows \<and> col < length (rows ! row) then Some (rows ! row ! col) else None)"

text \<open>
  The text colour of a cell under a list of style commands, read as ReportLab applies
  them: in order, a later command overriding an earlier one on the cells both cover.
  The index \<open>-1\<close> stands for the last column or row of a table of the given size.
\<close>

definition resolve :: "nat \<Rightarrow> int \<Rightarrow> int" where
  "resolve n i = (if i < 0 then int n + i else i)"

definition covers :: "nat \<times> nat \<Rightarrow> int \<times> int \<Rightarrow> int \<times> int \<Rightarrow> nat \<times> nat \<Rightarrow> bool" where
  "covers dims lo hi pos \<longleftrightarrow>
     resolve (fst dims) (fst lo) \<le> int (fst pos) \<and> int (fst pos) \<le> resolve (fst dims) (fst hi) \<and>
     resolve (snd dims) (snd lo) \<le> int (snd pos) \<and> int (snd pos) \<le> resolve (snd dims) (snd hi)"

fun text_color_at :: "nat \<times> nat \<Rightarrow> nat \<times> nat \<Rightarrow> table_cmd list \<Rightarrow> color option" where
  "text_color_at dims pos [] = None"
| "text_color_at dims pos (TEXTCOLOR lo hi c # cmds) =
     (case text_color_at dims pos cmds of
        Some later \<Rightarrow> Some later
      | None \<Rightarrow> if covers dims lo hi pos then Some c else None)"
| "text_color_at dims pos (cmd # cmds) = text_color_at dims pos cmds"

text \<open>
  The two cells of the information table the claims speak about: the content of the
  Report ID cell (column 1, row 0) and the text colour of the Classification cell
  (column 1, row 4) of the table of two columns and six rows.
\<close>

definition report_id_cell :: "flowable list \<Rightarrow> json option" where
  "report_id_cell story =
     (case first_table story of None \<Rightarrow> None | Some (rows, cmds) \<Rightarrow> cell_at rows (1, 0))"

definition classification_cell_color :: "flowable list \<Rightarrow> color option" where
  "classification_cell_color story =
     (case first_table story of
        None \<Rightarrow> None
      | Some (rows, cmds) \<Rightarrow> text_color_at (2, length rows) (1, 4) cmds)"

subsection \<open>The words of the specification\<close>

text \<open>
  Two texts are equal up to the case of their ASCII letters when they agree after every
  letter between \<open>A\<close> (65) and \<open>Z\<close> (90) has been moved up by 32.
\<close>

definition lower_char :: "char \<Rightarrow> char" where
  "lower_char c =
     (if 65 \<le> (of_char c :: nat) \<and> (of_char c :: nat) \<le> 90
      then char_of (of_char c + 32 :: nat)
      else c)"

definition equal_ignoring_case :: "string \<Rightarrow> string \<Rightarrow> bool" where
  "equal_ignoring_case s t \<longleftrightarrow> map lower_char s = map lower_char t"

text \<open>The severity mapping of a finding, as the specification words it.\<close>

definition severity_color :: "string \<Rightarrow> color" where
  "severity_color severity =
     (if equal_ignoring_case severity ''critical'' then DANGER_COLOR
      else if equal_ignoring_case severity ''warning'' then WARNING_COLOR
      else NEUTRAL_COLOR)"

text \<open>The classification mapping, as the specification words it; \<open>None\<close> is an absent field.\<close>

definition classification_color :: "json option \<Rightarrow> color" where
  "classification_color classification =
     (if classification = Some (JStr ''normal'') then SUCCESS_COLOR
      else if classification = Some (JStr ''abnormal'') then WARNING_COLOR
      else if classification = Some (JStr ''critical'') then DANGER_COLOR
      else NEUTRAL_COLOR)"






definition minimal_story :: "flowable list" where
  "minimal_story =
     page1_header
     @ [Paragraph (JStr ''Report Information'') (Styles SectionTitle),
        Table [[JStr ''Report ID:'', JStr ''N/A...''],
               [JStr ''File Name:'', JStr ''Unknown''],
               [JStr ''Uploaded:'', JStr ''N/A''],
               [JStr ''Organization:'', JStr ''Unknown''],
               [JStr ''Classification:'', JStr ''PENDING''],
               [JStr ''Review Status:'', JStr ''pending'']]
          [120, 350] (info_style NEUTRAL_COLOR),
        Spacer 1 16,
        Paragraph (JStr ''AI Analysis Summary'') (Styles SectionTitle),
        Paragraph (JStr ''No summary available'') (Styles CustomBodyText),
        Spacer 1 8,
        Paragraph (JStr ''No details available'') (Styles CustomBodyText),
        Spacer 1 16]
     @ page1_disclaimer"




fun is_object :: "json \<Rightarrow> bool" where
  "is_object (JObj kvs) = True"
| "is_object v = False"




subsection \<open>A runtime for the examples\<close>

text \<open>
  The examples below need one runtime to run on. Its decoder knows the three texts the
  examples feed it, \<open>{}\<close>, \<open>[]\<close> and the empty text, and answers them as
  \<open>json.loads\<close> does; its layout engine accepts every story and answers with the four
  bytes \<open>%PDF\<close>; its message is CPython's for an attribute a type does not have, a
  text naming the type and the operation for a type error, and the library's own text
  otherwise. The examples format strings only, so the text of other values is left
  empty.
\<close>

fun type_name :: "py_type \<Rightarrow> string" where
  "type_name NoneType = ''NoneType''"
| "type_name TBool = ''bool''"
| "type_name TInt = ''int''"
| "type_name TFloat = ''float''"
| "type_name TStr = ''str''"
| "type_name TList = ''list''"
| "type_name TDict = ''dict''"

fun example_message :: "py_error \<Rightarrow> string" where
  "example_message (AttributeError t a) =
     [CHR 0x27] @ type_name t @ [CHR 0x27] @ '' object has no attribute '' @ [CHR 0x27] @ a @ [CHR 0x27]"
| "example_message (TypeError t op) = [CHR 0x27] @ type_name t @ [CHR 0x27] @ '' object does not support '' @ op"
| "example_message (JSONDecodeError m) = m"
| "example_message (LayoutError m) = m"

definition example_loads :: "string \<Rightarrow> py_error + json" where
  "example_loads text =
     (if text = ''{}'' then Inr (JObj [])
      else if text = ''[]'' then Inr (JArr [])
      else Inl (JSONDecodeError ''Expecting value: line 1 column 1 (char 0)''))"

definition example_runtime :: runtime where
  "example_runtime =
     \<lparr>json_loads = example_loads,
      py_str = (\<lambda>v. []),
      doc_build = (\<lambda>story. Inr [0x25, 0x50, 0x44, 0x46]),
      exc_str = example_message\<rparr>"

text \<open>
  A report with one finding, an interpretation and one suggested doctor, for the
  examples.
\<close>

definition example_report :: json where
  "example_report =
     JObj [(''id'', JStr ''a1b2c3d4-0001''),
           (''fileName'', JStr ''cbc.pdf''),
           (''classification'', JStr ''abnormal''),
           (''findings'',
              JArr [JObj [(''severity'', JStr ''Critical''),
                          (''category'', JStr ''Hemoglobin''),
                          (''description'', JStr ''Below the reference range'')]]),
           (''muainaInterpretation'',
              JObj [(''summary'', JStr ''Mild anemia''),
                    (''suggestedDoctors'',
                       JArr [JObj [(''name'', JStr ''Dr. Khan''),
                                   (''consultationFee'', JStr ''2000'')]])])]"

section \<open>Proofs\<close>

subsection \<open>Results and loops\<close>

lemma and_then_Inr: "and_then m f = Inr y \<longleftrightarrow> (\<exists>x. m = Inr x \<and> f x = Inr y)"
  by (cases m) auto

lemma dict_get_Inr: "dict_get d k dflt = Inr v \<longleftrightarrow> is_object d \<and> v = field_or d k dflt"
  by (cases d) (auto simp: field_or_def split: option.splits)

lemma upper_Inr: "upper v = Inr s \<longleftrightarrow> (\<exists>t. v = JStr t \<and> s = map upper_char t)"
  by (cases v) auto

lemma for_each_all:
  assumes "for_each body xs = Inr bs"
    and "\<And>x b. body x = Inr b \<Longrightarrow> \<forall>y\<in>set b. P y"
  shows "\<forall>y\<in>set bs. P y"
  using assms(1)
proof (induction xs arbitrary: bs)
  case Nil
  then show ?case by simp
next
  case (Cons x xs)
  then obtain b rest where b: "body x = Inr b" and r: "for_each body xs = Inr rest"
    and bs: "bs = b @ rest"
    by (auto simp: and_then_Inr)
  from assms(2) [OF b] Cons.IH [OF r] bs show ?case by auto
qed

lemma for_each_member:
  assumes "for_each body xs = Inr bs" and "x \<in> set xs"
  shows "\<exists>b. body x = Inr b \<and> set b \<subseteq> set bs"
  using assms
proof (induction xs arbitrary: bs)
  case Nil
  then show ?case by simp
next
  case (Cons a xs)
  then obtain b rest where b: "body a = Inr b" and r: "for_each body xs = Inr rest"
    and bs: "bs = b @ rest"
    by (auto simp: and_then_Inr)
  show ?case
  proof (cases "x = a")
    case True
    with b bs show ?thesis by auto
  next
    case False
    with Cons.prems have "x \<in> set xs" by simp
    from Cons.IH [OF r this] bs show ?thesis by auto
  qed
qed

subsection \<open>Upper case and equality up to case\<close>

lemma char_of_literal:
  "(char_of (n::nat) = c) = (take_bit 8 n = of_char c)"
  "(c = char_of (n::nat)) = (take_bit 8 n = of_char c)"
  using char_of_eq_iff [of n c] by (simp_all add: eq_commute [of c])








subsection \<open>The headings of a story\<close>

lemma section_titles_Nil [simp]: "section_titles [] = []"
  by (simp add: section_titles_def)

lemma section_titles_Cons [simp]: "section_titles (b # bs) = section_title b @ section_titles bs"
  by (simp add: section_titles_def)

lemma section_titles_append [simp]:
  "section_titles (xs @ ys) = section_titles xs @ section_titles ys"
  by (simp add: section_titles_def)

lemma for_each_titles:
  assumes "for_each body xs = Inr bs"
    and "\<And>x b. body x = Inr b \<Longrightarrow> section_titles b = []"
  shows "section_titles bs = []"
  using assms(1)
proof (induction xs arbitrary: bs)
  case Nil
  then show ?case by simp
next
  case (Cons x xs)
  then show ?case by (auto simp: and_then_Inr assms(2))
qed

lemma titles_page1_header [simp]: "section_titles page1_header = []"
  by (simp add: page1_header_def)

lemma titles_page1_disclaimer [simp]: "section_titles page1_disclaimer = []"
  by (simp add: page1_disclaimer_def)

lemma titles_report_information:
  "report_information data = Inr info \<Longrightarrow> section_titles info = [JStr ''Report Information'']"
  by (auto simp: report_information_def and_then_Inr)

lemma titles_analysis_summary:
  "analysis_summary data = Inr blocks \<Longrightarrow> section_titles blocks = [JStr ''AI Analysis Summary'']"
  by (auto simp: analysis_summary_def and_then_Inr)

lemma titles_finding_block:
  "finding_block rt f = Inr blocks \<Longrightarrow> section_titles blocks = []"
  by (auto simp: finding_block_def and_then_Inr Let_def)

lemma titles_key_findings:
  "key_findings rt data = Inr blocks \<Longrightarrow>
   section_titles blocks =
     (if truthy (field_or data ''findings'' (JArr [])) then [JStr ''Key Findings''] else [])"
  by (auto simp: key_findings_def and_then_Inr dict_get_Inr split: if_splits
      dest: for_each_titles [OF _ titles_finding_block])

lemma titles_page1:
  "page1 rt data = Inr blocks \<Longrightarrow>
   section_titles blocks =
     [JStr ''Report Information'', JStr ''AI Analysis Summary'']
     @ (if truthy (field_or data ''findings'' (JArr [])) then [JStr ''Key Findings''] else [])"
  by (auto simp: page1_def and_then_Inr titles_report_information titles_analysis_summary
      titles_key_findings)

lemma titles_item_line: "item_line rt glyph style item = Inr blocks \<Longrightarrow> style \<noteq> SectionTitle \<Longrightarrow> section_titles blocks = []"
  by (cases style) (auto simp: item_line_def)

lemma titles_item_section:
  "item_section rt key dflt title glyph style i = Inr blocks \<Longrightarrow> style \<noteq> SectionTitle \<Longrightarrow>
   section_titles blocks = []"
  by (auto simp: item_section_def and_then_Inr split: if_splits
      dest: for_each_titles [OF _ titles_item_line])

lemma titles_captioned_items:
  "captioned_items rt caption glyph style entries = Inr blocks \<Longrightarrow> style \<noteq> SectionTitle \<Longrightarrow>
   section_titles blocks = []"
  by (auto simp: captioned_items_def and_then_Inr split: if_splits
      dest: for_each_titles [OF _ titles_item_line])

lemma titles_medical_condition:
  "medical_condition rt i = Inr blocks \<Longrightarrow> section_titles blocks = []"
  by (auto simp: medical_condition_def and_then_Inr Let_def split: if_splits)

lemma titles_what_this_means:
  "what_this_means i = Inr blocks \<Longrightarrow> section_titles blocks = []"
  by (auto simp: what_this_means_def and_then_Inr)

lemma titles_consultation_info:
  "consultation_info rt i = Inr blocks \<Longrightarrow> section_titles blocks = []"
  by (auto simp: consultation_info_def and_then_Inr Let_def split: if_splits)

lemma titles_dos_and_donts:
  "dos_and_donts rt i = Inr blocks \<Longrightarrow> section_titles blocks = []"
  by (auto simp: dos_and_donts_def and_then_Inr titles_captioned_items split: if_splits)

lemma titles_page2:
  "page2 rt i = Inr blocks \<Longrightarrow>
   section_titles blocks = [JStr ''Patient-Friendly Interpretation'']"
  by (auto simp: page2_def and_then_Inr page2_header_def page2_disclaimer_def
      titles_medical_condition titles_what_this_means titles_item_section
      titles_consultation_info titles_dos_and_donts)

lemma titles_doctor_block: "doctor_block rt d = Inr blocks \<Longrightarrow> section_titles blocks = []"
  by (auto simp: doctor_block_def and_then_Inr)

lemma titles_recommendation_block:
  "recommendation_block rt r = Inr blocks \<Longrightarrow> section_titles blocks = []"
  by (auto simp: recommendation_block_def and_then_Inr)

lemma titles_provider_section:
  assumes "provider_section title body entries = Inr blocks"
    and "\<And>x b. body x = Inr b \<Longrightarrow> section_titles b = []"
  shows "section_titles blocks = []"
  using assms(1)
  by (auto simp: provider_section_def and_then_Inr split: if_splits
      dest: for_each_titles [OF _ assms(2)])

lemma titles_page3:
  "page3 rt i = Inr blocks \<Longrightarrow>
   section_titles blocks =
     (if truthy (field_or i ''suggestedDoctors'' (JArr []))
         \<or> truthy (field_or i ''doctorRecommendations'' (JArr []))
      then [JStr ''Recommended Healthcare Providers''] else [])"
  by (auto simp: page3_def and_then_Inr dict_get_Inr page3_header_def page3_disclaimer_def
      titles_provider_section [OF _ titles_doctor_block]
      titles_provider_section [OF _ titles_recommendation_block]
      split: if_splits)

text \<open>The headings of a story that was built.\<close>

lemma titles_build_story:
  assumes "build_story rt data = Inr story"
  shows "section_titles story =
     [JStr ''Report Information'', JStr ''AI Analysis Summary'']
     @ (if truthy (field_or data ''findings'' (JArr [])) then [JStr ''Key Findings''] else [])
     @ (if truthy (field_or data ''muainaInterpretation'' JNull)
        then JStr ''Patient-Friendly Interpretation''
             # (if truthy (field_or (field_or data ''muainaInterpretation'' JNull) ''suggestedDoctors'' (JArr []))
                   \<or> truthy (field_or (field_or data ''muainaInterpretation'' JNull) ''doctorRecommendations'' (JArr []))
                then [JStr ''Recommended Healthcare Providers''] else [])
        else [])"
proof -
  from assms obtain p1 where p1: "page1 rt data = Inr p1"
    and rest: "(if truthy (field_or data ''muainaInterpretation'' JNull)
       then and_then (page2 rt (field_or data ''muainaInterpretation'' JNull)) (\<lambda>second_page.
            and_then (page3 rt (field_or data ''muainaInterpretation'' JNull)) (\<lambda>third_page.
            Inr (p1 @ second_page @ third_page)))
       else Inr p1) = Inr story"
    by (auto simp: build_story_def and_then_Inr dict_get_Inr)
  show ?thesis
  proof (cases "truthy (field_or data ''muainaInterpretation'' JNull)")
    case False
    with rest have "story = p1" by simp
    with False titles_page1 [OF p1] show ?thesis by simp
  next
    case True
    with rest obtain p2 p3 where "page2 rt (field_or data ''muainaInterpretation'' JNull) = Inr p2"
      and "page3 rt (field_or data ''muainaInterpretation'' JNull) = Inr p3"
      and "story = p1 @ p2 @ p3"
      by (auto simp: and_then_Inr)
    with True titles_page1 [OF p1] show ?thesis
      by (simp add: titles_page2 titles_page3)
  qed
qed

lemma has_page2_iff:
  assumes "build_story rt data = Inr story"
  shows "has_page2 story \<longleftrightarrow> truthy (field_or data ''muainaInterpretation'' JNull)"
  by (simp add: has_page2_def titles_build_story [OF assms])

lemma has_page3_iff:
  assumes "build_story rt data = Inr story"
  shows "has_page3 story \<longleftrightarrow>
     truthy (field_or data ''muainaInterpretation'' JNull)
     \<and> (truthy (field_or (field_or data ''muainaInterpretation'' JNull) ''suggestedDoctors'' (JArr []))
        \<or> truthy (field_or (field_or data ''muainaInterpretation'' JNull) ''doctorRecommendations'' (JArr [])))"
  by (simp add: has_page3_def titles_build_story [OF assms])

lemma has_key_findings_iff:
  assumes "build_story rt data = Inr story"
  shows "has_key_findings story \<longleftrightarrow> truthy (field_or data ''findings'' (JArr []))"
  by (simp add: has_key_findings_def titles_build_story [OF assms])

subsection \<open>What a built story says about the record\<close>


lemma story_page1: "build_story rt data = Inr story \<Longrightarrow> \<exists>p1. page1 rt data = Inr p1"
  by (auto simp: build_story_def and_then_Inr)

lemma story_interpretation:
  assumes "build_story rt data = Inr story"
    and "truthy (field_or data ''muainaInterpretation'' JNull)"
  shows "\<exists>p1 p2 p3. page1 rt data = Inr p1
      \<and> page2 rt (field_or data ''muainaInterpretation'' JNull) = Inr p2
      \<and> page3 rt (field_or data ''muainaInterpretation'' JNull) = Inr p3
      \<and> story = p1 @ p2 @ p3"
  using assms by (auto simp: build_story_def and_then_Inr dict_get_Inr)

lemma story_no_interpretation:
  assumes "build_story rt data = Inr story"
    and "\<not> truthy (field_or data ''muainaInterpretation'' JNull)"
  shows "page1 rt data = Inr story"
  using assms by (auto simp: build_story_def and_then_Inr dict_get_Inr)











subsection \<open>The information table\<close>

lemma first_table_append:
  "first_table (xs @ ys) = (case first_table xs of None \<Rightarrow> first_table ys | Some t \<Rightarrow> Some t)"
  by (induction xs rule: first_table.induct) auto

lemma first_table_page1:
  assumes "page1 rt data = Inr p1"
  shows "\<exists>rows. info_data data = Inr rows
     \<and> first_table p1 =
          Some (rows, info_style (get_classification_color (field_or data ''classification'' (JStr []))))"
  using assms
  by (auto simp: page1_def report_information_def and_then_Inr dict_get_Inr page1_header_def)

lemma first_table_story:
  assumes "build_story rt data = Inr story"
  shows "\<exists>rows. info_data data = Inr rows
     \<and> first_table story =
          Some (rows, info_style (get_classification_color (field_or data ''classification'' (JStr []))))"
proof (cases "truthy (field_or data ''muainaInterpretation'' JNull)")
  case True
  from story_interpretation [OF assms True] obtain p1 p2 p3
    where "page1 rt data = Inr p1" and "story = p1 @ p2 @ p3" by blast
  with first_table_page1 [of rt data p1] show ?thesis
    by (auto simp: first_table_append)
next
  case False
  from story_no_interpretation [OF assms False] first_table_page1 [of rt data story]
  show ?thesis by simp
qed

lemma info_data_rows:
  assumes "info_data data = Inr rows"
  shows "\<exists>ident c. field_or data ''id'' (JStr ''N/A'') = JStr ident
     \<and> field_or data ''classification'' (JStr ''pending'') = JStr c
     \<and> rows = [[JStr ''Report ID:'', JStr (take 8 ident @ ''...'')],
          [JStr ''File Name:'', field_or data ''fileName'' (JStr ''Unknown'')],
          [JStr ''Uploaded:'', field_or data ''uploadedAt'' (JStr ''N/A'')],
          [JStr ''Organization:'', field_or data ''organizationName'' (JStr ''Unknown'')],
          [JStr ''Classification:'', JStr (map upper_char c)],
          [JStr ''Review Status:'', field_or data ''reviewStatus'' (JStr ''pending'')]]"
proof -
  from assms obtain sliced report_id where s: "slice_to 8 (field_or data ''id'' (JStr ''N/A'')) = Inr sliced"
    and a: "add_str sliced ''...'' = Inr report_id"
    by (auto simp: info_data_def and_then_Inr dict_get_Inr)
  from a obtain t where t: "sliced = JStr t" by (cases sliced) auto
  with s obtain ident where i: "field_or data ''id'' (JStr ''N/A'') = JStr ident"
    by (cases "field_or data ''id'' (JStr ''N/A'')") auto
  with assms show ?thesis
    by (auto simp: info_data_def and_then_Inr dict_get_Inr upper_Inr)
qed

lemma text_color_info_style: "text_color_at (2, 6) (1, 4) (info_style c) = Some c"
  by (simp add: info_style_def covers_def resolve_def)

lemma get_classification_color_field:
  "get_classification_color (field_or data ''classification'' (JStr [])) =
   classification_color (lookup data ''classification'')"
  by (auto simp: field_or_def classification_color_def get_classification_color_def
      split: option.splits)

subsection \<open>Running the examples\<close>

text \<open>The definitions a concrete story is computed with.\<close>

lemmas story_defs =
  build_story_def page1_def page1_header_def report_information_def info_data_def info_style_def
  get_classification_color_def analysis_summary_def key_findings_def finding_block_def
  page1_disclaimer_def page2_def page2_header_def medical_condition_def what_this_means_def
  item_section_def item_line_def consultation_info_def captioned_items_def dos_and_donts_def
  page2_disclaimer_def page3_def page3_header_def doctor_block_def recommendation_block_def
  provider_section_def page3_disclaimer_def upper_char_def

lemma example_report_story: "\<exists>story. build_story example_runtime example_report = Inr story"
  by (simp add: example_report_def story_defs)

section \<open>The claims\<close>

subsection \<open>C1: page 2 and the interpretation\<close>




subsection \<open>C2: the failure path of \<open>main\<close>\<close>



subsection \<open>C3: defaults for absent fields\<close>









































subsection \<open>C4: page 3 and the two lists of doctors\<close>



subsection \<open>C5: the Report ID cell\<close>

text \<open>
  C5. In the story of every record that is rendered, the identifier is a string (the
  default \<open>N/A\<close> when the field is absent) and the Report ID cell of the information
  table holds its first 8 characters followed by \<open>...\<close>; an identifier of fewer than
  8 characters is shown whole, the suffix appended all the same.
\<close>

theorem report_id_truncated:
  assumes "build_story rt data = Inr story"
  shows "\<exists>ident. field_or data ''id'' (JStr ''N/A'') = JStr ident
     \<and> report_id_cell story = Some (JStr (take 8 ident @ ''...''))
     \<and> (length ident < 8 \<longrightarrow> report_id_cell story = Some (JStr (ident @ ''...'')))"
proof -
  from first_table_story [OF assms] obtain rows where r: "info_data data = Inr rows"
    and f: "first_table story =
      Some (rows, info_style (get_classification_color (field_or data ''classification'' (JStr []))))"
    by blast
  from info_data_rows [OF r] f show ?thesis
    by (auto simp: report_id_cell_def cell_at_def)
qed

text \<open>
  On the example report the cell reads \<open>a1b2c3d4...\<close>; on the empty record, whose
  default identifier has three characters, it reads \<open>N/A...\<close>.
\<close>

theorem report_id_truncated_witness:
  "(\<exists>story. build_story example_runtime example_report = Inr story
      \<and> report_id_cell story = Some (JStr ''a1b2c3d4...''))
   \<and> build_story example_runtime (JObj []) = Inr minimal_story
   \<and> length ''N/A'' < (8::nat)
   \<and> report_id_cell minimal_story = Some (JStr ''N/A...'')"
proof -
  from example_report_story obtain story
    where s: "build_story example_runtime example_report = Inr story" ..
  have i: "field_or example_report ''id'' (JStr ''N/A'') = JStr ''a1b2c3d4-0001''"
    by (simp add: example_report_def field_or_def)
  from report_id_truncated [OF s] i have "report_id_cell story = Some (JStr ''a1b2c3d4...'')"
    by auto
  with s have one: "\<exists>story. build_story example_runtime example_report = Inr story
      \<and> report_id_cell story = Some (JStr ''a1b2c3d4...'')" by blast
  have m: "build_story example_runtime (JObj []) = Inr minimal_story"
    by (simp add: story_defs minimal_story_def char_of_literal)
  have j: "field_or (JObj []) ''id'' (JStr ''N/A'') = JStr ''N/A''"
    by (simp add: field_or_def)
  from report_id_truncated [OF m] j have "report_id_cell minimal_story = Some (JStr ''N/A...'')"
    by auto
  with one m show ?thesis by simp
qed

subsection \<open>C6: the colour of the Classification cell\<close>

text \<open>
  C6. In the story of every record that is rendered, the text colour applied to the
  Classification cell of the information table is the success colour when the field
  \<open>classification\<close> equals \<open>normal\<close>, the warning colour for \<open>abnormal\<close>, the danger
  colour for \<open>critical\<close> and the neutral colour for any other value and for an absent
  field.
\<close>

theorem classification_cell_colored:
  assumes "build_story rt data = Inr story"
  shows "classification_cell_color story = Some (classification_color (lookup data ''classification''))"
proof -
  from first_table_story [OF assms] obtain rows where r: "info_data data = Inr rows"
    and f: "first_table story =
      Some (rows, info_style (get_classification_color (field_or data ''classification'' (JStr []))))"
    by blast
  from info_data_rows [OF r] have len: "length rows = 6" by auto
  let ?c = "get_classification_color (field_or data ''classification'' (JStr []))"
  from f have "classification_cell_color story = text_color_at (2, length rows) (1, 4) (info_style ?c)"
    by (simp add: classification_cell_color_def)
  also have "\<dots> = Some ?c"
    unfolding len by (rule text_color_info_style)
  also have "\<dots> = Some (classification_color (lookup data ''classification''))"
    by (simp only: get_classification_color_field)
  finally show ?thesis .
qed

text \<open>The example report is classified \<open>abnormal\<close>: its cell has the warning colour.\<close>

theorem classification_cell_colored_witness:
  "\<exists>story. build_story example_runtime example_report = Inr story
     \<and> lookup example_report ''classification'' = Some (JStr ''abnormal'')
     \<and> classification_cell_color story = Some WARNING_COLOR"
proof -
  from example_report_story obtain story
    where s: "build_story example_runtime example_report = Inr story" ..
  have c: "lookup example_report ''classification'' = Some (JStr ''abnormal'')"
    by (simp add: example_report_def)
  have "classification_color (Some (JStr ''abnormal'')) = WARNING_COLOR"
    by (simp add: classification_color_def)
  with classification_cell_colored [OF s] c s show ?thesis by auto
qed

subsection \<open>C7: the colour of a finding's title\<close>





subsection \<open>C8: no findings, no Key Findings section\<close>

text \<open>Outside the findings section no paragraph has the style of a finding's title.\<close>

lemma for_each_list_all:
  assumes "for_each body xs = Inr bs"
    and "\<And>x b. body x = Inr b \<Longrightarrow> list_all P b"
  shows "list_all P bs"
  using for_each_all [OF assms(1), of P] assms(2) by (simp add: list_all_iff)

lemma no_finding_title_item_line:
  "item_line rt glyph style item = Inr blocks \<Longrightarrow> list_all (\<lambda>b. \<not> is_finding_title b) blocks"
  by (auto simp: item_line_def)

lemma no_finding_title_item_section:
  "item_section rt key dflt title glyph style i = Inr blocks \<Longrightarrow>
   list_all (\<lambda>b. \<not> is_finding_title b) blocks"
  by (auto simp: item_section_def and_then_Inr split: if_splits
      dest: for_each_list_all [OF _ no_finding_title_item_line])

lemma no_finding_title_captioned_items:
  "captioned_items rt caption glyph style entries = Inr blocks \<Longrightarrow>
   list_all (\<lambda>b. \<not> is_finding_title b) blocks"
  by (auto simp: captioned_items_def and_then_Inr split: if_splits
      dest: for_each_list_all [OF _ no_finding_title_item_line])

lemma no_finding_title_medical_condition:
  "medical_condition rt i = Inr blocks \<Longrightarrow> list_all (\<lambda>b. \<not> is_finding_title b) blocks"
  by (auto simp: medical_condition_def and_then_Inr Let_def split: if_splits)

lemma no_finding_title_what_this_means:
  "what_this_means i = Inr blocks \<Longrightarrow> list_all (\<lambda>b. \<not> is_finding_title b) blocks"
  by (auto simp: what_this_means_def and_then_Inr)

lemma no_finding_title_consultation_info:
  "consultation_info rt i = Inr blocks \<Longrightarrow> list_all (\<lambda>b. \<not> is_finding_title b) blocks"
  by (auto simp: consultation_info_def and_then_Inr Let_def split: if_splits)

lemma no_finding_title_dos_and_donts:
  "dos_and_donts rt i = Inr blocks \<Longrightarrow> list_all (\<lambda>b. \<not> is_finding_title b) blocks"
  by (auto simp: dos_and_donts_def and_then_Inr no_finding_title_captioned_items split: if_splits)

lemma no_finding_title_page2:
  "page2 rt i = Inr blocks \<Longrightarrow> list_all (\<lambda>b. \<not> is_finding_title b) blocks"
  by (auto simp: page2_def and_then_Inr page2_header_def page2_disclaimer_def
      no_finding_title_medical_condition no_finding_title_what_this_means
      no_finding_title_item_section no_finding_title_consultation_info
      no_finding_title_dos_and_donts)

lemma no_finding_title_doctor_block:
  "doctor_block rt d = Inr blocks \<Longrightarrow> list_all (\<lambda>b. \<not> is_finding_title b) blocks"
  by (auto simp: doctor_block_def and_then_Inr split: if_splits)

lemma no_finding_title_recommendation_block:
  "recommendation_block rt r = Inr blocks \<Longrightarrow> list_all (\<lambda>b. \<not> is_finding_title b) blocks"
  by (auto simp: recommendation_block_def and_then_Inr)

lemma no_finding_title_provider_section:
  assumes "provider_section title body entries = Inr blocks"
    and "\<And>x b. body x = Inr b \<Longrightarrow> list_all (\<lambda>y. \<not> is_finding_title y) b"
  shows "list_all (\<lambda>b. \<not> is_finding_title b) blocks"
  using assms(1)
  by (auto simp: provider_section_def and_then_Inr split: if_splits
      dest: for_each_list_all [OF _ assms(2)])

lemma no_finding_title_page3:
  "page3 rt i = Inr blocks \<Longrightarrow> list_all (\<lambda>b. \<not> is_finding_title b) blocks"
  by (auto simp: page3_def and_then_Inr page3_header_def page3_disclaimer_def
      no_finding_title_provider_section [OF _ no_finding_title_doctor_block]
      no_finding_title_provider_section [OF _ no_finding_title_recommendation_block]
      split: if_splits)

lemma key_findings_skipped:
  assumes "is_object data"
    and "lookup data ''findings'' = None \<or> lookup data ''findings'' = Some (JArr [])"
  shows "key_findings rt data = Inr []"
proof -
  from assms(2) have "field_or data ''findings'' (JArr []) = JArr []"
    by (auto simp: field_or_def)
  with assms(1) show ?thesis
    by (cases data) (auto simp: key_findings_def field_or_def)
qed

lemma no_finding_title_page1:
  assumes "page1 rt data = Inr blocks" and "key_findings rt data = Inr []"
  shows "list_all (\<lambda>b. \<not> is_finding_title b) blocks"
  using assms
  by (auto simp: page1_def and_then_Inr page1_header_def page1_disclaimer_def
      report_information_def analysis_summary_def)

text \<open>
  C8. In the story of every record that is rendered and whose findings list is empty
  or absent, the findings section contributes no block: the story has neither the
  heading ``Key Findings'' nor the title line of any finding.
\<close>

theorem no_findings_no_section:
  assumes "build_story rt data = Inr story"
    and "lookup data ''findings'' = None \<or> lookup data ''findings'' = Some (JArr [])"
  shows "key_findings rt data = Inr []
     \<and> \<not> has_key_findings story
     \<and> (\<forall>b\<in>set story. \<not> is_finding_title b)"
proof -
  from story_page1 [OF assms(1)] obtain p1 where p1: "page1 rt data = Inr p1" by blast
  then have obj: "is_object data"
    by (auto simp: page1_def report_information_def info_data_def and_then_Inr dict_get_Inr)
  from key_findings_skipped [OF obj assms(2)] have kf: "key_findings rt data = Inr []" .
  from assms(2) have falsy: "\<not> truthy (field_or data ''findings'' (JArr []))"
    by (auto simp: field_or_def)
  then have heading: "\<not> has_key_findings story"
    by (simp add: has_key_findings_iff [OF assms(1)])
  have titles: "\<forall>b\<in>set story. \<not> is_finding_title b"
  proof (cases "truthy (field_or data ''muainaInterpretation'' JNull)")
    case True
    from story_interpretation [OF assms(1) True] obtain q1 p2 p3
      where q1: "page1 rt data = Inr q1"
      and p2: "page2 rt (field_or data ''muainaInterpretation'' JNull) = Inr p2"
      and p3: "page3 rt (field_or data ''muainaInterpretation'' JNull) = Inr p3"
      and eq: "story = q1 @ p2 @ p3" by blast
    from no_finding_title_page1 [OF q1 kf] no_finding_title_page2 [OF p2]
      no_finding_title_page3 [OF p3] eq
    show ?thesis by (auto simp: list_all_iff)
  next
    case False
    from no_finding_title_page1 [OF story_no_interpretation [OF assms(1) False] kf]
    show ?thesis by (simp add: list_all_iff)
  qed
  from kf heading titles show ?thesis by blast
qed

text \<open>The records \<open>{"findings": []}\<close> and \<open>{}\<close> both give the story of the empty record.\<close>

theorem no_findings_no_section_witness:
  "build_story example_runtime (JObj [(''findings'', JArr [])]) = Inr minimal_story
   \<and> lookup (JObj [(''findings'', JArr [])]) ''findings'' = Some (JArr [])
   \<and> key_findings example_runtime (JObj [(''findings'', JArr [])]) = Inr []
   \<and> build_story example_runtime (JObj []) = Inr minimal_story
   \<and> lookup (JObj []) ''findings'' = None
   \<and> key_findings example_runtime (JObj []) = Inr []
   \<and> \<not> has_key_findings minimal_story
   \<and> list_all (\<lambda>b. \<not> is_finding_title b) minimal_story"
proof -
  have m: "build_story example_runtime (JObj [(''findings'', JArr [])]) = Inr minimal_story"
    by (simp add: story_defs minimal_story_def char_of_literal)
  have l: "lookup (JObj [(''findings'', JArr [])]) ''findings'' = Some (JArr [])"
    by simp
  have m': "build_story example_runtime (JObj []) = Inr minimal_story"
    by (simp add: story_defs minimal_story_def char_of_literal)
  have l': "lookup (JObj []) ''findings'' = None"
    by simp
  from no_findings_no_section [OF m disjI2 [OF l]] no_findings_no_section [OF m' disjI1 [OF l']]
    m l m' l'
  show ?thesis
    by (simp add: list_all_iff)
qed

subsection \<open>C9: the fee line of a suggested doctor\<close>

text \<open>The block of one doctor, and where the blocks of the suggested doctors stand.\<close>

lemma doctor_block_fee:
  assumes "doctor_block rt doctor = Inr blocks"
  shows "list_ex is_fee_line blocks \<longleftrightarrow> truthy (field_or doctor ''consultationFee'' JNull)"
  using assms by (auto simp: doctor_block_def and_then_Inr dict_get_Inr split: if_splits)

lemma suggested_doctors_blocks:
  assumes "build_story rt data = Inr story"
    and "lookup (field_or data ''muainaInterpretation'' JNull) ''suggestedDoctors'' = Some (JArr doctors)"
    and "doctor \<in> set doctors"
  shows "\<exists>blocks. doctor_block rt doctor = Inr blocks \<and> set blocks \<subseteq> set story"
proof -
  let ?i = "field_or data ''muainaInterpretation'' JNull"
  from assms(2) have ti: "truthy ?i"
    by (cases ?i) auto
  from assms(2) have fd: "field_or ?i ''suggestedDoctors'' (JArr []) = JArr doctors"
    by (simp add: field_or_def)
  from assms(3) have ne: "doctors \<noteq> []" by auto
  from story_interpretation [OF assms(1) ti] obtain p1 p2 p3
    where p3: "page3 rt ?i = Inr p3" and eq: "story = p1 @ p2 @ p3" by blast
  from p3 fd ne have "\<exists>db rb. provider_section ''Suggested Doctors'' (doctor_block rt) (JArr doctors) = Inr db
      \<and> [PageBreak] @ page3_header @ db @ rb @ page3_disclaimer = p3"
    by (simp add: page3_def and_then_Inr dict_get_Inr) blast
  then obtain db rb where db: "provider_section ''Suggested Doctors'' (doctor_block rt) (JArr doctors) = Inr db"
    and p3_eq: "p3 = [PageBreak] @ page3_header @ db @ rb @ page3_disclaimer"
    by blast
  from db ne have "\<exists>bl. for_each (doctor_block rt) doctors = Inr bl
      \<and> Paragraph (JStr ''Suggested Doctors'') (Styles SubSectionTitle) # bl = db"
    by (simp add: provider_section_def and_then_Inr)
  then obtain bl where bl: "for_each (doctor_block rt) doctors = Inr bl"
    and db_eq: "db = Paragraph (JStr ''Suggested Doctors'') (Styles SubSectionTitle) # bl"
    by blast
  from db_eq have sub1: "set bl \<subseteq> set db" by auto
  from p3_eq eq have sub2: "set db \<subseteq> set story" by auto
  from for_each_member [OF bl assms(3)] obtain b
    where b: "doctor_block rt doctor = Inr b" and sub3: "set b \<subseteq> set bl" by blast
  from sub1 sub2 sub3 have "set b \<subseteq> set story" by blast
  with b show ?thesis by blast
qed

text \<open>
  C9, as the script has it. In the story of every record that is rendered, the block
  of every doctor of the \<open>suggestedDoctors\<close> list has a \<open>Fee:\<close> line if and only if
  the doctor's \<open>consultationFee\<close> is true in Python's sense: present and neither
  \<open>null\<close>, \<open>false\<close>, zero, an empty string, an empty list nor an empty object. When the
  field is absent the line is left out.
\<close>

theorem fee_line_iff_fee:
  assumes "build_story rt data = Inr story"
    and "lookup (field_or data ''muainaInterpretation'' JNull) ''suggestedDoctors'' = Some (JArr doctors)"
    and "doctor \<in> set doctors"
  shows "\<exists>blocks. doctor_block rt doctor = Inr blocks \<and> set blocks \<subseteq> set story
     \<and> (list_ex is_fee_line blocks \<longleftrightarrow> truthy (field_or doctor ''consultationFee'' JNull))
     \<and> (lookup doctor ''consultationFee'' = None \<longrightarrow> \<not> list_ex is_fee_line blocks)"
proof -
  from suggested_doctors_blocks [OF assms] obtain blocks
    where b: "doctor_block rt doctor = Inr blocks" and sub: "set blocks \<subseteq> set story" by blast
  have "lookup doctor ''consultationFee'' = None \<longrightarrow> \<not> truthy (field_or doctor ''consultationFee'' JNull)"
    by (simp add: field_or_def)
  with doctor_block_fee [OF b] b sub show ?thesis
    by (intro exI [of _ blocks]) simp
qed

text \<open>The doctor of the example report has the fee \<open>2000\<close> and a fee line.\<close>

theorem fee_line_iff_fee_witness:
  "\<exists>story blocks. build_story example_runtime example_report = Inr story
     \<and> doctor_block example_runtime (JObj [(''name'', JStr ''Dr. Khan''), (''consultationFee'', JStr ''2000'')])
         = Inr blocks
     \<and> set blocks \<subseteq> set story
     \<and> list_ex is_fee_line blocks
     \<and> truthy (JStr ''2000'')"
proof -
  define doctor where "doctor = JObj [(''name'', JStr ''Dr. Khan''), (''consultationFee'', JStr ''2000'')]"
  from example_report_story obtain story
    where s: "build_story example_runtime example_report = Inr story" ..
  have l: "lookup (field_or example_report ''muainaInterpretation'' JNull) ''suggestedDoctors''
      = Some (JArr [doctor])"
    by (simp add: example_report_def field_or_def doctor_def)
  have m: "doctor \<in> set [doctor]" by simp
  have f: "field_or doctor ''consultationFee'' JNull = JStr ''2000''"
    by (simp add: doctor_def field_or_def)
  from fee_line_iff_fee [OF s l m] f obtain blocks
    where "doctor_block example_runtime doctor = Inr blocks" and "set blocks \<subseteq> set story"
      and "list_ex is_fee_line blocks"
    by auto
  with s show ?thesis unfolding doctor_def by auto
qed

text \<open>
  C9 as stated fails on a doctor whose fee is the number 0: the fee is present, the
  record is rendered with page 3, and no block of the story is a fee line.
\<close>

theorem fee_line_counterexample:
  "lookup (JObj [(''name'', JStr ''Dr. Khan''), (''consultationFee'', JInt 0)]) ''consultationFee''
     = Some (JInt 0)
   \<and> (\<exists>story. build_story example_runtime
         (JObj [(''muainaInterpretation'',
            JObj [(''suggestedDoctors'',
               JArr [JObj [(''name'', JStr ''Dr. Khan''), (''consultationFee'', JInt 0)]])])])
         = Inr story
       \<and> has_page3 story
       \<and> \<not> list_ex is_fee_line story)"
  by (simp add: story_defs has_page3_def char_of_literal)

subsection \<open>C10: no page 3 without page 2\<close>

text \<open>
  C10. In the story of every record that is rendered, page 3 stands only if page 2
  does; the two lists of doctors are read from the interpretation, so that a record
  without the field \<open>muainaInterpretation\<close> has no page 3.
\<close>

theorem page3_implies_page2:
  assumes "build_story rt data = Inr story"
  shows "(has_page3 story \<longrightarrow> has_page2 story)
     \<and> (lookup data ''muainaInterpretation'' = None \<longrightarrow> \<not> has_page3 story)"
  by (auto simp: has_page3_iff [OF assms] has_page2_iff [OF assms] field_or_def)

text \<open>The example report has both pages; the empty record has no interpretation and no page 3.\<close>

theorem page3_implies_page2_witness:
  "(\<exists>story. build_story example_runtime example_report = Inr story
      \<and> has_page3 story \<and> has_page2 story)
   \<and> build_story example_runtime (JObj []) = Inr minimal_story
   \<and> lookup (JObj []) ''muainaInterpretation'' = None
   \<and> \<not> has_page3 minimal_story"
proof -
  from example_report_story obtain story
    where s: "build_story example_runtime example_report = Inr story" ..
  have "has_page3 story"
    using s by (auto simp: has_page3_iff [OF s] example_report_def field_or_def)
  with page3_implies_page2 [OF s] s
  have one: "\<exists>story. build_story example_runtime example_report = Inr story
      \<and> has_page3 story \<and> has_page2 story" by blast
  have m: "build_story example_runtime (JObj []) = Inr minimal_story"
    by (simp add: story_defs minimal_story_def char_of_literal)
  have "lookup (JObj []) ''muainaInterpretation'' = None" by simp
  with page3_implies_page2 [OF m] one m show ?thesis by simp
qed

end
